theory Spec2Isabelle
  imports Complex_Main "HOL-Library.Sublist"
begin

section \<open>Strings as the components use them\<close>

text \<open>
  The two components only use three string operations: \<open>toLowerCase\<close>, \<open>includes\<close> and
  \<open>split(' ')[0]\<close>. Strings are character lists. \<open>toLowerCase\<close> below maps the letters
  \<open>A\<close> .. \<open>Z\<close> to \<open>a\<close> .. \<open>z\<close> and leaves every other character alone: it is
  \<open>String.prototype.toLowerCase\<close> on ASCII text, which every literal of the two
  components is where case matters. On other text the platform's function follows the
  Unicode tables; the search filter, which lower-cases what the user types and what the
  catalog holds, is therefore also given with the lower-casing function as a parameter
  (\<open>searchWith\<close> below).
\<close>

definition lowerChar :: "char \<Rightarrow> char" where
  "lowerChar c =
     (let n = (of_char c :: nat) in if 65 \<le> n \<and> n \<le> 90 then char_of (n + 32) else c)"

definition toLowerCase :: "string \<Rightarrow> string" where
  "toLowerCase s = map lowerChar s"

text \<open>\<open>s.startsWith(sub)\<close>, the test \<open>includes\<close> makes at each position.\<close>

fun startsWith :: "string \<Rightarrow> string \<Rightarrow> bool" where
  "startsWith s [] = True"
| "startsWith [] (c # sub) = False"
| "startsWith (d # s) (c # sub) = (d = c \<and> startsWith s sub)"

text \<open>\<open>s.includes(sub)\<close> (\<open>includes\<close> is reserved): \<open>sub\<close> occurs in \<open>s\<close> at some position.\<close>

fun includes_s :: "string \<Rightarrow> string \<Rightarrow> bool" where
  "includes_s [] sub = (sub = [])"
| "includes_s (c # s) sub = (startsWith (c # s) sub \<or> includes_s s sub)"

text \<open>\<open>s.split(' ')[0]\<close>: the text before the first space (all of \<open>s\<close> without one).\<close>

definition firstWord :: "string \<Rightarrow> string" where
  "firstWord s = takeWhile (\<lambda>c. c \<noteq> CHR '' '') s"

section \<open>The knowledge graph (KnowledgeGraph component)\<close>

subsection \<open>Data model\<close>

datatype node_type = Mission | Product | Document | Location | User | Process

text \<open>The string a \<open>type\<close> value is at run time.\<close>

fun typeName :: "node_type \<Rightarrow> string" where
  "typeName Mission = ''mission''"
| "typeName Product = ''product''"
| "typeName Document = ''document''"
| "typeName Location = ''location''"
| "typeName User = ''user''"
| "typeName Process = ''process''"

text \<open>A metadata value (\<open>metadata: any\<close>): a string, a number or a list of strings.\<close>

datatype meta_value = MStr string | MNum nat | MList "string list"

text \<open>
  \<open>interface Node\<close>. The fields \<open>id\<close>, \<open>label\<close>, \<open>type\<close>, \<open>x\<close>, \<open>y\<close> and
  \<open>metadata\<close> carry the prefix \<open>node_\<close>; \<open>metadata\<close> keeps the order of its keys.
\<close>

record node =
  node_id :: string
  node_label :: string
  node_type :: node_type
  node_x :: int
  node_y :: int
  connections :: "string list"
  node_metadata :: "(string \<times> meta_value) list"

datatype edge_type = Provides | Contains | Processes | Accesses | Related

text \<open>\<open>interface Edge\<close>, its fields prefixed with \<open>edge_\<close>.\<close>

record edge =
  edge_from :: string
  edge_to :: string
  edge_label :: string
  edge_type :: edge_type

subsection \<open>The catalog\<close>

definition nodes :: "node list" where
  "nodes = [
    \<lparr>node_id = ''insat3d'', node_label = ''INSAT-3D'', node_type = Mission,
      node_x = 200, node_y = 150,
      connections = [''imager_data'', ''sounder_data'', ''meteorology''],
      node_metadata = [(''launch'', MStr ''2013''), (''status'', MStr ''Active''),
        (''orbit'', MStr ''Geostationary'')]\<rparr>,
    \<lparr>node_id = ''scatsat1'', node_label = ''SCATSAT-1'', node_type = Mission,
      node_x = 400, node_y = 100,
      connections = [''scatterometer_data'', ''ocean_winds'', ''weather''],
      node_metadata = [(''launch'', MStr ''2016''), (''status'', MStr ''Active''),
        (''orbit'', MStr ''Polar'')]\<rparr>,
    \<lparr>node_id = ''oceansat2'', node_label = ''Oceansat-2'', node_type = Mission,
      node_x = 600, node_y = 180,
      connections = [''ocm_data'', ''ocean_color'', ''coastal_monitoring''],
      node_metadata = [(''launch'', MStr ''2009''), (''status'', MStr ''Active''),
        (''orbit'', MStr ''Sun-synchronous'')]\<rparr>,
    \<lparr>node_id = ''imager_data'', node_label = ''Imager Data'', node_type = Product,
      node_x = 150, node_y = 300,
      connections = [''meteorology'', ''weather_forecasting''],
      node_metadata = [(''resolution'', MStr ''1km-4km''), (''bands'', MStr ''6 channels''),
        (''format'', MStr ''HDF5'')]\<rparr>,
    \<lparr>node_id = ''scatterometer_data'', node_label = ''Scatterometer Data'',
      node_type = Product, node_x = 400, node_y = 280,
      connections = [''ocean_winds'', ''weather''],
      node_metadata = [(''resolution'', MStr ''25km''), (''swath'', MStr ''1400km''),
        (''format'', MStr ''NetCDF'')]\<rparr>,
    \<lparr>node_id = ''ocm_data'', node_label = ''OCM Data'', node_type = Product,
      node_x = 650, node_y = 320,
      connections = [''ocean_color'', ''coastal_monitoring''],
      node_metadata = [(''resolution'', MStr ''360m''), (''bands'', MStr ''8 channels''),
        (''format'', MStr ''HDF4'')]\<rparr>,
    \<lparr>node_id = ''user_manual'', node_label = ''User Manual'', node_type = Document,
      node_x = 100, node_y = 450,
      connections = [''imager_data'', ''data_processing''],
      node_metadata = [(''pages'', MNum 156), (''version'', MStr ''2.1''),
        (''format'', MStr ''PDF'')]\<rparr>,
    \<lparr>node_id = ''api_doc'', node_label = ''API Documentation'', node_type = Document,
      node_x = 300, node_y = 480,
      connections = [''data_access'', ''developers''],
      node_metadata = [(''endpoints'', MNum 12), (''version'', MStr ''1.3''),
        (''format'', MStr ''HTML'')]\<rparr>,
    \<lparr>node_id = ''faq'', node_label = ''FAQ Database'', node_type = Document,
      node_x = 500, node_y = 450,
      connections = [''user_support'', ''common_issues''],
      node_metadata = [(''questions'', MNum 247), (''categories'', MNum 8),
        (''updated'', MStr ''2024-01-15'')]\<rparr>,
    \<lparr>node_id = ''indian_ocean'', node_label = ''Indian Ocean'', node_type = Location,
      node_x = 750, node_y = 400,
      connections = [''oceansat2'', ''scatsat1''],
      node_metadata = [(''area'', MStr (''70.6M km'' @ [CHR 0xC2, CHR 0xB2])),
        (''coverage'', MStr ''Full''), (''sensors'', MList [''OCM'', ''Scatterometer''])]\<rparr>
  ]"

definition edges :: "edge list" where
  "edges = [
    \<lparr>edge_from = ''insat3d'', edge_to = ''imager_data'', edge_label = ''generates'',
      edge_type = Provides\<rparr>,
    \<lparr>edge_from = ''scatsat1'', edge_to = ''scatterometer_data'', edge_label = ''produces'',
      edge_type = Provides\<rparr>,
    \<lparr>edge_from = ''oceansat2'', edge_to = ''ocm_data'', edge_label = ''captures'',
      edge_type = Provides\<rparr>,
    \<lparr>edge_from = ''imager_data'', edge_to = ''user_manual'', edge_label = ''documented in'',
      edge_type = Contains\<rparr>,
    \<lparr>edge_from = ''scatterometer_data'', edge_to = ''api_doc'',
      edge_label = ''accessible via'', edge_type = Accesses\<rparr>,
    \<lparr>edge_from = ''ocm_data'', edge_to = ''indian_ocean'', edge_label = ''covers'',
      edge_type = Related\<rparr>,
    \<lparr>edge_from = ''scatsat1'', edge_to = ''indian_ocean'', edge_label = ''monitors'',
      edge_type = Related\<rparr>
  ]"

subsection \<open>Component state and the search filter\<close>

text \<open>The three \<open>useState\<close> cells of the component.\<close>

record kg_state =
  selectedNode :: "node option"
  searchTerm :: string
  filteredNodes :: "node list"

definition initialState :: kg_state where
  "initialState = \<lparr>selectedNode = None, searchTerm = [], filteredNodes = []\<rparr>"

text \<open>The predicate of \<open>nodes.filter\<close> in the effect on \<open>searchTerm\<close>.\<close>

definition nodeMatches :: "string \<Rightarrow> node \<Rightarrow> bool" where
  "nodeMatches term n \<longleftrightarrow>
     includes_s (toLowerCase (node_label n)) (toLowerCase term) \<or>
     includes_s (toLowerCase (typeName (node_type n))) (toLowerCase term)"

text \<open>The effect itself: it stores the filtered catalog in \<open>filteredNodes\<close>.\<close>

definition filterEffect :: "node list \<Rightarrow> kg_state \<Rightarrow> kg_state" where
  "filterEffect ns s = s\<lparr>filteredNodes := filter (nodeMatches (searchTerm s)) ns\<rparr>"

text \<open>
  Typing in the search box: \<open>setSearchTerm\<close>, after which the effect runs (it depends on
  \<open>searchTerm\<close>). The state returned is the one the component settles in.
\<close>

definition setSearchTerm :: "node list \<Rightarrow> string \<Rightarrow> kg_state \<Rightarrow> kg_state" where
  "setSearchTerm ns term s = filterEffect ns (s\<lparr>searchTerm := term\<rparr>)"

text \<open>Clicking a node: \<open>setSelectedNode(node)\<close>.\<close>

definition setSelectedNode :: "node \<Rightarrow> kg_state \<Rightarrow> kg_state" where
  "setSelectedNode n s = s\<lparr>selectedNode := Some n\<rparr>"

text \<open>
  The nodes drawn: \<open>(searchTerm ? filteredNodes : nodes)\<close>. Only the empty string is
  falsy.
\<close>

definition visibleNodes :: "node list \<Rightarrow> kg_state \<Rightarrow> node list" where
  "visibleNodes ns s = (if searchTerm s \<noteq> [] then filteredNodes s else ns)"

text \<open>A search from the mounted component: type \<open>term\<close>, read the nodes drawn.\<close>

definition search :: "node list \<Rightarrow> string \<Rightarrow> node list" where
  "search ns term = visibleNodes ns (setSearchTerm ns term (filterEffect ns initialState))"





subsection \<open>Rendering\<close>

fun getNodeColor :: "string \<Rightarrow> string" where
  "getNodeColor t =
     (if t = ''mission'' then ''bg-blue-500 border-blue-400''
      else if t = ''product'' then ''bg-green-500 border-green-400''
      else if t = ''document'' then ''bg-orange-500 border-orange-400''
      else if t = ''location'' then ''bg-purple-500 border-purple-400''
      else if t = ''user'' then ''bg-pink-500 border-pink-400''
      else if t = ''process'' then ''bg-yellow-500 border-yellow-400''
      else ''bg-gray-500 border-gray-400'')"

text \<open>\<open>nodes.find(n => n.id === i)\<close>; \<open>undefined\<close> is \<open>None\<close>.\<close>

definition findNode :: "node list \<Rightarrow> string \<Rightarrow> node option" where
  "findNode ns i = find (\<lambda>n. node_id n = i) ns"




text \<open>
  The Connections panel: for each id of \<open>selectedNode.connections\<close>, the class of the dot
  and the text shown.
\<close>

definition renderConnection :: "node list \<Rightarrow> string \<Rightarrow> string \<times> string" where
  "renderConnection ns connectionId =
     (case findNode ns connectionId of
        Some connectedNode \<Rightarrow>
          (firstWord (getNodeColor (typeName (node_type connectedNode))),
           node_label connectedNode)
      | None \<Rightarrow> (''bg-gray-500'', connectionId))"

definition renderConnections :: "node list \<Rightarrow> node \<Rightarrow> (string \<times> string) list" where
  "renderConnections ns sel = map (renderConnection ns) (connections sel)"

text \<open>The filter of the Relationships panel, for the selected node's id.\<close>

definition incidentEdges :: "edge list \<Rightarrow> string \<Rightarrow> edge list" where
  "incidentEdges es i = filter (\<lambda>e. edge_from e = i \<or> edge_to e = i) es"

text \<open>The Relationships panel: the type and the label of each incident edge.\<close>

definition renderRelationships :: "edge list \<Rightarrow> node \<Rightarrow> (edge_type \<times> string) list" where
  "renderRelationships es sel =
     map (\<lambda>e. (edge_type e, edge_label e)) (incidentEdges es (node_id sel))"

section \<open>The chat assistant (ChatInterface component)\<close>

subsection \<open>Messages\<close>

datatype sender = FromUser | FromBot

datatype message_type = Text | QueryAnalysis | Geospatial | DocumentMessage

text \<open>
  The body of a bot message. Three of the four bodies are fixed template literals (the
  product list, the five download steps, the geospatial offer); the fourth interpolates
  \<open>userQuery\<close>, as typed, into the general text.
\<close>

datatype content = ProductsText | DownloadStepsText | GeospatialText | GeneralText string

text \<open>
  \<open>metadata\<close>, one constructor for each object literal of \<open>simulateAIResponse\<close>:
  \<open>{entities, intent, confidence}\<close>, \<open>{procedure, steps}\<close>,
  \<open>{spatialQuery, availableSensors}\<close> and \<open>{generalQuery, searchAreas}\<close>.
\<close>

datatype metadata =
    AnalysisMeta "string list" string rat
  | ProcedureMeta string nat
  | SpatialMeta bool "string list"
  | GeneralMeta bool "string list"

text \<open>
  Reading \<open>metadata.entities\<close>, \<open>metadata.intent\<close> and \<open>metadata.confidence\<close>, as
  the message list does; a field the object does not have is \<open>undefined\<close>, here \<open>None\<close>.
\<close>

fun metaEntities :: "metadata \<Rightarrow> string list option" where
  "metaEntities (AnalysisMeta entities intent confidence) = Some entities"
| "metaEntities (ProcedureMeta procedure steps) = None"
| "metaEntities (SpatialMeta spatialQuery availableSensors) = None"
| "metaEntities (GeneralMeta generalQuery searchAreas) = None"

fun metaIntent :: "metadata \<Rightarrow> string option" where
  "metaIntent (AnalysisMeta entities intent confidence) = Some intent"
| "metaIntent (ProcedureMeta procedure steps) = None"
| "metaIntent (SpatialMeta spatialQuery availableSensors) = None"
| "metaIntent (GeneralMeta generalQuery searchAreas) = None"

fun metaConfidence :: "metadata \<Rightarrow> rat option" where
  "metaConfidence (AnalysisMeta entities intent confidence) = Some confidence"
| "metaConfidence (ProcedureMeta procedure steps) = None"
| "metaConfidence (SpatialMeta spatialQuery availableSensors) = None"
| "metaConfidence (GeneralMeta generalQuery searchAreas) = None"

text \<open>
  \<open>interface Message\<close>. \<open>timestamp\<close> is a clock reading in milliseconds; the optional
  fields \<open>type\<close> and \<open>metadata\<close> are options.
\<close>

record message =
  msg_id :: string
  msg_content :: content
  msg_sender :: sender
  timestamp :: nat
  msg_type :: "message_type option"
  msg_metadata :: "metadata option"

text \<open>\<open>n.toString()\<close> of a non-negative integer: its decimal digits.\<close>

function natToString :: "nat \<Rightarrow> string" where
  "natToString n =
     (if n < 10 then [char_of (48 + n)]
      else natToString (n div 10) @ [char_of (48 + n mod 10)])"
  by pat_completeness auto
termination
  by (relation "measure id") auto

declare natToString.simps [simp del]

subsection \<open>simulateAIResponse\<close>

text \<open>
  The function reads the clock twice, for \<open>Date.now()\<close> and for \<open>new Date()\<close>; the two
  readings are the parameters \<open>now\<close> and \<open>date\<close>. The branches are tried in the order
  of the source.
\<close>

definition simulateAIResponse :: "nat \<Rightarrow> nat \<Rightarrow> string \<Rightarrow> message" where
  "simulateAIResponse now date userQuery =
     (let query = toLowerCase userQuery in
      if includes_s query ''satellite'' \<or> includes_s query ''data'' then
        \<lparr>msg_id = natToString now, msg_content = ProductsText, msg_sender = FromBot,
          timestamp = date, msg_type = Some QueryAnalysis,
          msg_metadata = Some (AnalysisMeta [''INSAT-3D'', ''SCATSAT-1'', ''Oceansat-2'']
            ''product_inquiry'' (92 / 100))\<rparr>
      else if includes_s query ''download'' \<or> includes_s query ''access'' then
        \<lparr>msg_id = natToString now, msg_content = DownloadStepsText, msg_sender = FromBot,
          timestamp = date, msg_type = Some DocumentMessage,
          msg_metadata = Some (ProcedureMeta ''data_download'' 5)\<rparr>
      else if includes_s query ''location'' \<or> includes_s query ''area''
          \<or> includes_s query ''region'' then
        \<lparr>msg_id = natToString now, msg_content = GeospatialText, msg_sender = FromBot,
          timestamp = date, msg_type = Some Geospatial,
          msg_metadata = Some (SpatialMeta True [''OCM'', ''Scatterometer'', ''Imager''])\<rparr>
      else
        \<lparr>msg_id = natToString now, msg_content = GeneralText userQuery, msg_sender = FromBot,
          timestamp = date, msg_type = None,
          msg_metadata = Some (GeneralMeta True
            [''documentation'', ''faq'', ''missions'', ''support''])\<rparr>)"

text \<open>
  What the message list reads of a message: \<open>message.metadata\<close> first, then the field
  of it.
\<close>

definition messageEntities :: "message \<Rightarrow> string list option" where
  "messageEntities m = (case msg_metadata m of None \<Rightarrow> None | Some md \<Rightarrow> metaEntities md)"

definition messageIntent :: "message \<Rightarrow> string option" where
  "messageIntent m = (case msg_metadata m of None \<Rightarrow> None | Some md \<Rightarrow> metaIntent md)"

definition messageConfidence :: "message \<Rightarrow> rat option" where
  "messageConfidence m = (case msg_metadata m of None \<Rightarrow> None | Some md \<Rightarrow> metaConfidence md)"

section \<open>Notions of the specification\<close>

text \<open>
  Stated from the specification's words, to compare the components with: the ids joined
  to node \<open>i\<close> by an edge incident to it (the other end of each such edge).
\<close>

definition derivedConnections :: "edge list \<Rightarrow> string \<Rightarrow> string set" where
  "derivedConnections es i =
     set (map edge_to (filter (\<lambda>e. edge_from e = i) es)) \<union>
     set (map edge_from (filter (\<lambda>e. edge_to e = i) es))"

text \<open>
  Stated from the specification's words: the labels of the catalog that occur in the text
  without regard to case, in catalog order, each once (the first occurrence kept).
\<close>

definition extractSpec :: "string \<Rightarrow> string list \<Rightarrow> string list" where
  "extractSpec text labels =
     rev (remdups (rev (filter (\<lambda>l. includes_s (toLowerCase text) (toLowerCase l)) labels)))"

section \<open>Auxiliary facts\<close>

lemma lowerChar_idem: "lowerChar (lowerChar c) = lowerChar c"
  by (auto simp: lowerChar_def Let_def of_char_of)

lemma toLowerCase_idem: "toLowerCase (toLowerCase s) = toLowerCase s"
  by (simp add: toLowerCase_def lowerChar_idem)

lemma toLowerCase_Nil_iff: "toLowerCase s = [] \<longleftrightarrow> s = []"
  by (simp add: toLowerCase_def)







lemma search_eq: "search ns term = (if term \<noteq> [] then filter (nodeMatches term) ns else ns)"
  by (simp add: search_def visibleNodes_def setSearchTerm_def filterEffect_def)

lemma visible_after_set:
  "visibleNodes ns (setSearchTerm ns term s) =
     (if term \<noteq> [] then filter (nodeMatches term) ns else ns)"
  by (simp add: visibleNodes_def setSearchTerm_def filterEffect_def)


lemma count_list_filter:
  "count_list (filter P xs) x = (if P x then count_list xs x else 0)"
  by (induction xs) auto

text \<open>The two string tests are the prefix and the contiguous-sublist relations.\<close>

lemma startsWith_prefix: "startsWith s sub = prefix sub s"
  by (induction s sub rule: startsWith.induct) auto

lemma includes_s_sublist: "includes_s s sub = sublist sub s"
  by (induction s) (auto simp: startsWith_prefix sublist_Cons_right)

section \<open>The connections of a node and the edge list\<close>

text \<open>
  C1, as stated, fails: the \<open>connections\<close> of the first catalog node, \<open>insat3d\<close>, are
  not the set of ids that the edge list joins to it.
\<close>

theorem insat3d_connections_not_derived:
  "set (connections (nodes ! 0)) \<noteq> derivedConnections edges (node_id (nodes ! 0))"
  by code_simp

text \<open>
  C1, amended: \<open>connections\<close> is data written in each node literal, which the component
  does not derive from the edge list. In the catalog no node's \<open>connections\<close> is the set
  of ids joined to it by an incident edge; \<open>insat3d\<close> lists \<open>imager_data\<close>,
  \<open>sounder_data\<close> and \<open>meteorology\<close>, while its only incident edge joins it to
  \<open>imager_data\<close>.
\<close>

theorem connections_authored_not_derived:
  "(\<forall>n \<in> set nodes. set (connections n) \<noteq> derivedConnections edges (node_id n)) \<and>
   connections (nodes ! 0) = [''imager_data'', ''sounder_data'', ''meteorology''] \<and>
   derivedConnections edges ''insat3d'' = {''imager_data''}"
  by code_simp

text \<open>Witness for C1, at the last catalog node, \<open>indian_ocean\<close>.\<close>

theorem connections_authored_not_derived_witness:
  "nodes ! 9 \<in> set nodes \<and>
   set (connections (nodes ! 9)) \<noteq> derivedConnections edges (node_id (nodes ! 9))"
proof -
  have mem: "nodes ! 9 \<in> set nodes"
    by (simp add: nodes_def)
  with connections_authored_not_derived show ?thesis
    by blast
qed

section \<open>Edges and their endpoints\<close>



section \<open>Rule order of the assistant\<close>

text \<open>
  C2, as stated, fails: the query \<open>download satellite\<close> contains both keywords, and the
  answer is not the download procedure (type \<open>document\<close>, procedure \<open>data_download\<close>).
\<close>

theorem download_satellite_not_procedure:
  "includes_s (toLowerCase ''download satellite'') ''download'' \<and>
   includes_s (toLowerCase ''download satellite'') ''satellite'' \<and>
   msg_type (simulateAIResponse 0 0 ''download satellite'') \<noteq> Some DocumentMessage \<and>
   msg_metadata (simulateAIResponse 0 0 ''download satellite'') \<noteq>
     Some (ProcedureMeta ''data_download'' 5)"
  by code_simp

text \<open>
  C2, amended: a query whose lower-cased text contains both \<open>download\<close> and
  \<open>satellite\<close> gets the answer of the first branch, the one on \<open>satellite\<close> and
  \<open>data\<close>: the product list, of type \<open>query_analysis\<close>, with intent
  \<open>product_inquiry\<close> and confidence 0.92. It is neither the download procedure nor the
  general answer.
\<close>

theorem download_and_satellite_is_product_inquiry:
  assumes "includes_s (toLowerCase q) ''download''"
    and "includes_s (toLowerCase q) ''satellite''"
  shows "msg_content (simulateAIResponse now date q) = ProductsText \<and>
    msg_type (simulateAIResponse now date q) = Some QueryAnalysis \<and>
    msg_metadata (simulateAIResponse now date q) =
      Some (AnalysisMeta [''INSAT-3D'', ''SCATSAT-1'', ''Oceansat-2'']
        ''product_inquiry'' (92 / 100))"
  using assms by (simp add: simulateAIResponse_def Let_def)

text \<open>Witness for C2, at the query \<open>How to download satellite images\<close>.\<close>

theorem download_and_satellite_is_product_inquiry_witness:
  "includes_s (toLowerCase ''How to download satellite images'') ''download'' \<and>
   includes_s (toLowerCase ''How to download satellite images'') ''satellite'' \<and>
   msg_content (simulateAIResponse 1 2 ''How to download satellite images'') = ProductsText \<and>
   msg_type (simulateAIResponse 1 2 ''How to download satellite images'') =
     Some QueryAnalysis \<and>
   msg_metadata (simulateAIResponse 1 2 ''How to download satellite images'') =
     Some (AnalysisMeta [''INSAT-3D'', ''SCATSAT-1'', ''Oceansat-2'']
       ''product_inquiry'' (92 / 100))"
proof -
  have d: "includes_s (toLowerCase ''How to download satellite images'') ''download''"
    by code_simp
  have s: "includes_s (toLowerCase ''How to download satellite images'') ''satellite''"
    by code_simp
  from download_and_satellite_is_product_inquiry [OF d s, of 1 2] d s show ?thesis
    by blast
qed

section \<open>Entities, fallback and determinism of the assistant\<close>

text \<open>
  C4, as stated, fails: for the query \<open>data\<close> the entity list is not the list of catalog
  labels occurring in the query (none does), and for the query \<open>INSAT-3D\<close>, in which a
  catalog label occurs, there is no entity list.
\<close>

theorem entities_not_extracted_from_text:
  "messageEntities (simulateAIResponse 0 0 ''data'') \<noteq>
     Some (extractSpec ''data'' (map node_label nodes)) \<and>
   messageEntities (simulateAIResponse 0 0 ''INSAT-3D'') \<noteq>
     Some (extractSpec ''INSAT-3D'' (map node_label nodes))"
  by code_simp

text \<open>
  C4, amended: the entity list of the answer is the fixed list \<open>INSAT-3D\<close>,
  \<open>SCATSAT-1\<close>, \<open>Oceansat-2\<close> when the lower-cased query contains \<open>satellite\<close> or
  \<open>data\<close>, and is absent otherwise; it does not depend on the catalog or on the labels
  that occur in the query.
\<close>

theorem entities_fixed_by_branch:
  "messageEntities (simulateAIResponse now date q) =
     (if includes_s (toLowerCase q) ''satellite'' \<or> includes_s (toLowerCase q) ''data''
      then Some [''INSAT-3D'', ''SCATSAT-1'', ''Oceansat-2''] else None)"
  by (simp add: simulateAIResponse_def Let_def messageEntities_def)

text \<open>Witness for C4, at the query \<open>ocean data\<close>.\<close>

theorem entities_fixed_by_branch_witness:
  "includes_s (toLowerCase ''ocean data'') ''data'' \<and>
   messageEntities (simulateAIResponse 3 4 ''ocean data'') =
     Some [''INSAT-3D'', ''SCATSAT-1'', ''Oceansat-2'']"
proof -
  have h: "includes_s (toLowerCase ''ocean data'') ''data''"
    by code_simp
  with entities_fixed_by_branch [of 3 4 "''ocean data''"] show ?thesis
    by simp
qed

text \<open>
  C6, as stated, fails: the answer to \<open>tell me about the weather\<close> carries no intent
  (so not \<open>general_inquiry\<close>) and no confidence.
\<close>

theorem fallback_has_no_intent:
  "messageIntent (simulateAIResponse 0 0 ''tell me about the weather'') \<noteq>
     Some ''general_inquiry'' \<and>
   messageConfidence (simulateAIResponse 0 0 ''tell me about the weather'') = None"
  by code_simp

text \<open>
  C6, amended: for every query whose lower-cased text contains none of the seven keywords,
  \<open>simulateAIResponse\<close> returns (it has no error path, for any string) the general answer:
  the general text with the query as typed, no \<open>type\<close>, and the metadata
  \<open>generalQuery: true\<close> with the four search areas, which has no intent, no confidence
  and no entity list.
\<close>

theorem no_keyword_general_answer:
  assumes "\<forall>k \<in> set [''satellite'', ''data'', ''download'', ''access'', ''location'',
      ''area'', ''region'']. \<not> includes_s (toLowerCase q) k"
  shows "simulateAIResponse now date q =
     \<lparr>msg_id = natToString now, msg_content = GeneralText q, msg_sender = FromBot,
       timestamp = date, msg_type = None,
       msg_metadata = Some (GeneralMeta True
         [''documentation'', ''faq'', ''missions'', ''support''])\<rparr> \<and>
     messageIntent (simulateAIResponse now date q) = None \<and>
     messageConfidence (simulateAIResponse now date q) = None \<and>
     messageEntities (simulateAIResponse now date q) = None"
  using assms
  by (simp add: simulateAIResponse_def Let_def messageIntent_def messageConfidence_def
      messageEntities_def)

text \<open>Witness for C6, at the query \<open>tell me about the weather\<close>.\<close>

theorem no_keyword_general_answer_witness:
  "\<not> includes_s (toLowerCase ''tell me about the weather'') ''satellite'' \<and>
   \<not> includes_s (toLowerCase ''tell me about the weather'') ''data'' \<and>
   \<not> includes_s (toLowerCase ''tell me about the weather'') ''download'' \<and>
   \<not> includes_s (toLowerCase ''tell me about the weather'') ''access'' \<and>
   \<not> includes_s (toLowerCase ''tell me about the weather'') ''location'' \<and>
   \<not> includes_s (toLowerCase ''tell me about the weather'') ''area'' \<and>
   \<not> includes_s (toLowerCase ''tell me about the weather'') ''region'' \<and>
   msg_content (simulateAIResponse 5 6 ''tell me about the weather'') =
     GeneralText ''tell me about the weather'' \<and>
   msg_metadata (simulateAIResponse 5 6 ''tell me about the weather'') =
     Some (GeneralMeta True [''documentation'', ''faq'', ''missions'', ''support'']) \<and>
   messageIntent (simulateAIResponse 5 6 ''tell me about the weather'') = None"
proof -
  have h: "\<forall>k \<in> set [''satellite'', ''data'', ''download'', ''access'', ''location'',
      ''area'', ''region'']. \<not> includes_s (toLowerCase ''tell me about the weather'') k"
    by code_simp
  from no_keyword_general_answer [OF h, of 5 6] h show ?thesis
    by (simp add: messageIntent_def)
qed

text \<open>
  C7: the answer to a query is the same at every call, but for the two clock readings:
  the body, the sender, the type and the metadata (with its intent, confidence and
  entities) depend on the query alone, and only \<open>id\<close> and \<open>timestamp\<close> carry the clock.
\<close>

theorem simulateAIResponse_deterministic:
  "msg_content (simulateAIResponse now1 date1 q) =
     msg_content (simulateAIResponse now2 date2 q) \<and>
   msg_sender (simulateAIResponse now1 date1 q) =
     msg_sender (simulateAIResponse now2 date2 q) \<and>
   msg_type (simulateAIResponse now1 date1 q) = msg_type (simulateAIResponse now2 date2 q) \<and>
   msg_metadata (simulateAIResponse now1 date1 q) =
     msg_metadata (simulateAIResponse now2 date2 q) \<and>
   simulateAIResponse now1 date1 q =
     (simulateAIResponse now2 date2 q)\<lparr>msg_id := natToString now1, timestamp := date1\<rparr>"
  by (simp add: simulateAIResponse_def Let_def)

section \<open>Searching the catalog\<close>

text \<open>
  C5, as stated, fails for a whitespace-only term: a single space is a non-empty string,
  so the filtered list is drawn, and only seven of the ten labels contain a space.
\<close>

theorem search_space_not_full_catalog:
  "search nodes '' '' \<noteq> nodes \<and> length (search nodes '' '') = 7 \<and> length nodes = 10"
  by code_simp

text \<open>
  C5, amended: for the empty search term the nodes drawn are the whole catalog, in catalog
  order, whatever the state before.
\<close>

theorem search_empty_is_catalog:
  "search ns [] = ns \<and> visibleNodes ns (setSearchTerm ns [] s) = ns"
  by (simp add: search_eq visible_after_set)



section \<open>The detail panel\<close>

text \<open>
  C9: for every id, the Relationships filter returns exactly the edges whose \<open>from\<close> or
  \<open>to\<close> is that id, each as often as the catalog has it and in catalog order, and the
  panel shows the type and label of each; for the catalog, \<open>insat3d\<close> has exactly one
  incident edge.
\<close>

theorem incidentEdges_exact:
  "set (incidentEdges es i) = {e \<in> set es. edge_from e = i \<or> edge_to e = i} \<and>
   subseq (incidentEdges es i) es \<and>
   (\<forall>e. count_list (incidentEdges es i) e =
      (if edge_from e = i \<or> edge_to e = i then count_list es e else 0)) \<and>
   renderRelationships es sel =
     map (\<lambda>e. (edge_type e, edge_label e)) (incidentEdges es (node_id sel)) \<and>
   incidentEdges edges ''insat3d'' =
     [\<lparr>edge_from = ''insat3d'', edge_to = ''imager_data'', edge_label = ''generates'',
       edge_type = Provides\<rparr>] \<and>
   length (renderRelationships edges (nodes ! 0)) = 1"
proof (intro conjI)
  show "set (incidentEdges es i) = {e \<in> set es. edge_from e = i \<or> edge_to e = i}"
    by (auto simp: incidentEdges_def)
  show "subseq (incidentEdges es i) es"
    by (simp add: incidentEdges_def)
  show "\<forall>e. count_list (incidentEdges es i) e =
      (if edge_from e = i \<or> edge_to e = i then count_list es e else 0)"
    by (simp add: incidentEdges_def count_list_filter)
  show "renderRelationships es sel =
     map (\<lambda>e. (edge_type e, edge_label e)) (incidentEdges es (node_id sel))"
    by (simp add: renderRelationships_def)
  show "incidentEdges edges ''insat3d'' =
     [\<lparr>edge_from = ''insat3d'', edge_to = ''imager_data'', edge_label = ''generates'',
       edge_type = Provides\<rparr>]"
    by code_simp
  show "length (renderRelationships edges (nodes ! 0)) = 1"
    by code_simp
qed

text \<open>Witness for C9: the second catalog edge, incident to \<open>scatsat1\<close>.\<close>

theorem incidentEdges_exact_witness:
  "edge_from (edges ! 1) = ''scatsat1'' \<and>
   count_list (incidentEdges edges ''scatsat1'') (edges ! 1) = count_list edges (edges ! 1) \<and>
   subseq (incidentEdges edges ''scatsat1'') edges"
proof -
  have h: "edge_from (edges ! 1) = ''scatsat1''"
    by code_simp
  with incidentEdges_exact [of edges "''scatsat1''"] show ?thesis
    by simp
qed

text \<open>
  C10: the Connections panel shows one entry for each id of the selected node's
  \<open>connections\<close>. Where no catalog node has the id, the entry is the id itself with the
  class \<open>bg-gray-500\<close>; where a node has it, the entry is that node's label with the
  first class of its colour. Neither case fails.
\<close>

theorem renderConnections_falls_back:
  "length (renderConnections ns sel) = length (connections sel) \<and>
   (\<forall>i<length (connections sel).
      (findNode ns (connections sel ! i) = None \<longrightarrow>
         renderConnections ns sel ! i = (''bg-gray-500'', connections sel ! i)) \<and>
      (\<forall>cn. findNode ns (connections sel ! i) = Some cn \<longrightarrow>
         renderConnections ns sel ! i =
           (firstWord (getNodeColor (typeName (node_type cn))), node_label cn)))"
  by (simp add: renderConnections_def renderConnection_def)

text \<open>
  Witness for C10: the second connection of \<open>insat3d\<close>, \<open>sounder_data\<close>, names no
  catalog node.
\<close>

theorem renderConnections_falls_back_witness:
  "1 < length (connections (nodes ! 0)) \<and>
   findNode nodes (connections (nodes ! 0) ! 1) = None \<and>
   renderConnections nodes (nodes ! 0) ! 1 = (''bg-gray-500'', ''sounder_data'')"
proof -
  have a: "1 < length (connections (nodes ! 0))"
    by code_simp
  have b: "findNode nodes (connections (nodes ! 0) ! 1) = None"
    by code_simp
  have c: "connections (nodes ! 0) ! 1 = ''sounder_data''"
    by code_simp
  from renderConnections_falls_back [of nodes "nodes ! 0"] a b c show ?thesis
    by metis
qed

end
